theory Spec2Isabelle
  imports Complex_Main "HOL-Library.Multiset" "HOL-Library.AList"
    "HOL-Library.Char_ord" "HOL-Library.List_Lexorder"
begin

section \<open>The interval normalizer\<close>

text \<open>
  The normalizer works on JavaScript numbers and on timestamps handled by the
  \<^verbatim>\<open>Date\<close> builtin and the date-fns functions \<^verbatim>\<open>parseISO\<close> and \<^verbatim>\<open>formatISO\<close>.
  A number is modelled by its class: a finite value (a real, so rounding and overflow of
  doubles and the sign of zero are abstracted), the two infinities, or NaN, which is what
  \<^verbatim>\<open>Number.isNaN\<close> tests. The fields of a point are plain data: a timestamp field is
  falsy, a string, or a valid date, and it is modelled by what the code can observe of
  it: falsy; a string that \<^verbatim>\<open>parseISO\<close> cannot read (it gives an invalid date); or an
  instant in milliseconds since the epoch. Local time is a zone with a fixed offset of
  whole hours (UTC), so \<^verbatim>\<open>setMinutes\<close> adds minutes and the hour of an instant is
  its quotient by 3600000.
\<close>

datatype jsnum = Num real | PosInf | NegInf | NaN

fun js_add :: "jsnum \<Rightarrow> jsnum \<Rightarrow> jsnum" where
  "js_add NaN y = NaN"
| "js_add x NaN = NaN"
| "js_add PosInf NegInf = NaN"
| "js_add NegInf PosInf = NaN"
| "js_add PosInf y = PosInf"
| "js_add x PosInf = PosInf"
| "js_add NegInf y = NegInf"
| "js_add x NegInf = NegInf"
| "js_add (Num a) (Num b) = Num (a + b)"

fun js_div :: "jsnum \<Rightarrow> jsnum \<Rightarrow> jsnum" where
  "js_div NaN y = NaN"
| "js_div x NaN = NaN"
| "js_div (Num a) (Num b) =
     (if b = 0 then (if a = 0 then NaN else if 0 < a then PosInf else NegInf)
      else Num (a / b))"
| "js_div (Num a) y = Num 0"
| "js_div PosInf (Num b) = (if 0 \<le> b then PosInf else NegInf)"
| "js_div NegInf (Num b) = (if 0 \<le> b then NegInf else PosInf)"
| "js_div x y = NaN"

text \<open>\<^verbatim>\<open>Math.round(a / b)\<close> for integers \<open>a\<close> and \<open>b > 0\<close>: halves round up.\<close>

definition math_round_div :: "int \<Rightarrow> int \<Rightarrow> int" where
  "math_round_div a b = (2 * a + b) div (2 * b)"

datatype jstime = Falsy | Unparsable | Instant int

text \<open>
  \<^verbatim>\<open>formatISO(date, { representation: "complete" })\<close> prints the instant down to the
  second; the function gives the instant that is printed.
\<close>

definition formatISO :: "int \<Rightarrow> int" where
  "formatISO t = (t div 1000) * 1000"

text \<open>
  \<^verbatim>\<open>formatISO\<close> prints the year with at least four digits and a minus sign before the
  year 0000, and \<^verbatim>\<open>parseISO\<close> reads a year of exactly four digits: a printed instant
  is read back only when its year lies in 0000 to 9999, that is from
  0000-01-01T00:00:00Z up to, not including, 10000-01-01T00:00:00Z. \<open>parsePrinted\<close> is
  what \<^verbatim>\<open>parseISO\<close> makes of the string printed for an instant.
\<close>

definition readableYear :: "int \<Rightarrow> bool" where
  "readableYear t = (- 62167219200000 \<le> t \<and> t < 253402300800000)"

definition parsePrinted :: "int \<Rightarrow> jstime" where
  "parsePrinted t = (if readableYear t then Instant t else Unparsable)"

text \<open>
  \<^verbatim>\<open>toLocalIso\<close> returns a falsy value and an unreadable string as they are, and for
  an instant the string that \<^verbatim>\<open>formatISO\<close> prints.
\<close>

fun toLocalIso :: "jstime \<Rightarrow> jstime" where
  "toLocalIso Falsy = Falsy"
| "toLocalIso Unparsable = Unparsable"
| "toLocalIso (Instant t) = parsePrinted (formatISO t)"

fun truthy_time :: "jstime \<Rightarrow> bool" where
  "truthy_time Falsy = False"
| "truthy_time Unparsable = True"
| "truthy_time (Instant t) = True"

fun isValidDate :: "jstime \<Rightarrow> bool" where
  "isValidDate (Instant t) = True"
| "isValidDate Unparsable = False"
| "isValidDate Falsy = False"

text \<open>
  An element of the array that is an object (or another value with properties), by the
  fields the code reads. The field \<open>r_value\<close> holds \<^verbatim>\<open>Number(point.value)\<close>; the
  currency is a string or undefined. An element that is null or undefined is \<open>None\<close>.
\<close>

record rawpoint =
  r_start :: jstime
  r_end :: jstime
  r_value :: jsnum
  r_currency :: "string option"

text \<open>
  A point that the normalizer holds or gives out: both timestamps are printed ISO
  strings, kept here as the instants they print.
\<close>

record point =
  p_start :: int
  p_end :: int
  p_value :: jsnum
  p_currency :: "string option"

datatype exn = TypeError

text \<open>
  The callback of \<^verbatim>\<open>points.map\<close>: reading \<^verbatim>\<open>point.start\<close> of null or undefined
  throws a TypeError.
\<close>

definition isoFields :: "rawpoint \<Rightarrow> rawpoint" where
  "isoFields p = \<lparr>r_start = toLocalIso (r_start p), r_end = toLocalIso (r_end p),
                  r_value = r_value p, r_currency = r_currency p\<rparr>"

definition mapPoint :: "rawpoint option \<Rightarrow> exn + rawpoint" where
  "mapPoint point = (case point of None \<Rightarrow> Inl TypeError | Some p \<Rightarrow> Inr (isoFields p))"

text \<open>\<^verbatim>\<open>Array.prototype.map\<close> with a callback that may throw: the first throw ends it.\<close>

fun mapArray :: "('a \<Rightarrow> exn + 'b) \<Rightarrow> 'a list \<Rightarrow> exn + 'b list" where
  "mapArray f [] = Inr []"
| "mapArray f (x # xs) =
     (case f x of
        Inl e \<Rightarrow> Inl e
      | Inr y \<Rightarrow> (case mapArray f xs of Inl e \<Rightarrow> Inl e | Inr ys \<Rightarrow> Inr (y # ys)))"

definition keepPoint :: "rawpoint \<Rightarrow> bool" where
  "keepPoint p = (truthy_time (r_start p) \<and> truthy_time (r_end p) \<and> r_value p \<noteq> NaN
                  \<and> isValidDate (r_start p) \<and> isValidDate (r_end p))"

definition asPoint :: "rawpoint \<Rightarrow> point option" where
  "asPoint p = (case (r_start p, r_end p) of
      (Instant s, Instant e) \<Rightarrow>
         Some \<lparr>p_start = s, p_end = e, p_value = r_value p, p_currency = r_currency p\<rparr>
    | _ \<Rightarrow> None)"

text \<open>The filter and the stable sort by start that follow the map.\<close>

definition filterAndSort :: "rawpoint list \<Rightarrow> point list" where
  "filterAndSort mapped = sort_key p_start (List.map_filter asPoint (filter keepPoint mapped))"

text \<open>The value of the variable \<^verbatim>\<open>sorted\<close>: map, filter, sort.\<close>

definition sortedPoints :: "rawpoint option list \<Rightarrow> exn + point list" where
  "sortedPoints points =
     (case mapArray mapPoint points of
        Inl e \<Rightarrow> Inl e
      | Inr mapped \<Rightarrow> Inr (filterAndSort mapped))"

definition detectInterval :: "point list \<Rightarrow> string option" where
  "detectInterval points =
     (if length points < 2 then None
      else
        let first = p_start (points ! 0);
            second = p_start (points ! 1);
            diffMinutes = math_round_div (second - first) 60000
        in if diffMinutes = 15 then Some ''15m''
           else if diffMinutes = 60 then Some ''1h''
           else if length points > 48 then Some ''15m'' else Some ''1h'')"

record bucket =
  b_start :: int
  b_end :: int
  b_sum :: jsnum
  b_count :: nat
  b_currency :: "string option"

definition hourKey :: "int \<Rightarrow> int" where
  "hourKey t = t div 3600000"

definition falsy_string :: "string option \<Rightarrow> bool" where
  "falsy_string c = (c = None \<or> c = Some [])"

text \<open>
  One round of the loop of \<^verbatim>\<open>aggregateToHourly\<close>: the bucket of the point's hour is
  looked up or opened, takes the point in, and is stored back. The \<^verbatim>\<open>Map\<close> keeps
  insertion order.
\<close>

definition mergePoint :: "bucket \<Rightarrow> point \<Rightarrow> bucket" where
  "mergePoint b0 pt =
     (let b1 = b0\<lparr>b_sum := js_add (b_sum b0) (p_value pt), b_count := b_count b0 + 1\<rparr>;
          b2 = (if p_start pt < b_start b1 then b1\<lparr>b_start := p_start pt\<rparr> else b1);
          b3 = (if p_end pt > b_end b2 then b2\<lparr>b_end := p_end pt\<rparr> else b2)
      in if falsy_string (b_currency b3) then b3\<lparr>b_currency := p_currency pt\<rparr> else b3)"

definition addToBucket :: "(int \<times> bucket) list \<Rightarrow> point \<Rightarrow> (int \<times> bucket) list" where
  "addToBucket buckets pt =
     (let key = hourKey (p_start pt);
          b0 = (case map_of buckets key of
                  Some b \<Rightarrow> b
                | None \<Rightarrow> \<lparr>b_start = p_start pt, b_end = p_end pt, b_sum = Num 0,
                            b_count = 0, b_currency = p_currency pt\<rparr>)
      in AList.update key (mergePoint b0 pt) buckets)"

definition bucketPoint :: "bucket \<Rightarrow> point" where
  "bucketPoint b =
     \<lparr>p_start = b_start b, p_end = b_end b,
      p_value = (if b_count b > 0 then js_div (b_sum b) (Num (real (b_count b)))
                 else if b_sum b = Num 0 \<or> b_sum b = NaN then Num 0 else b_sum b),
      p_currency = b_currency b\<rparr>"

definition aggregateToHourly :: "point list \<Rightarrow> point list" where
  "aggregateToHourly points =
     map bucketPoint (sort_key b_start (map snd (foldl addToBucket [] points)))"

text \<open>
  The filter has removed every point whose end is falsy, so of
  \<^verbatim>\<open>point.end ? parseISO(point.end) : null\<close> only the first branch is left. The
  slices of a point start at or after its start and before its end or at its start, so
  their printed starts are read back by the final sort; a printed end may pass the year
  9999.
\<close>

definition sliceCount :: "point \<Rightarrow> nat" where
  "sliceCount pt =
     (let durationMinutes = max 15 (math_round_div (p_end pt - p_start pt) 60000)
      in nat (max 1 (math_round_div durationMinutes 15)))"

definition expandPoint :: "point \<Rightarrow> point list" where
  "expandPoint pt =
     map (\<lambda>index.
            \<lparr>p_start = formatISO (p_start pt + int index * 15 * 60000),
             p_end = formatISO (p_start pt + int index * 15 * 60000 + 15 * 60000),
             p_value = js_div (p_value pt) (Num (real (sliceCount pt))),
             p_currency = p_currency pt\<rparr>)
         [0..<sliceCount pt]"

definition expandToQuarterHour :: "point list \<Rightarrow> point list" where
  "expandToQuarterHour points = sort_key p_start (concat (map expandPoint points))"

datatype points_arg = NotArray | Array "rawpoint option list"

definition normalizeSeries :: "points_arg \<Rightarrow> string \<Rightarrow> exn + point list" where
  "normalizeSeries points targetInterval =
     (case points of
        NotArray \<Rightarrow> Inr []
      | Array ps \<Rightarrow>
          if length ps = 0 then Inr []
          else
            (case sortedPoints ps of
               Inl e \<Rightarrow> Inl e
             | Inr sortedPts \<Rightarrow>
                 let sourceInterval = detectInterval sortedPts
                 in if targetInterval = ''1h'' then
                      (if sourceInterval = Some ''1h'' then Inr sortedPts
                       else Inr (aggregateToHourly sortedPts))
                    else if targetInterval = ''15m'' then
                      (if sourceInterval = Some ''15m'' then Inr sortedPts
                       else Inr (expandToQuarterHour sortedPts))
                    else Inr sortedPts))"


text \<open>Sample points for the instances below.\<close>

definition q0 :: point where
  "q0 = \<lparr>p_start = 0, p_end = 900000, p_value = Num 1, p_currency = Some ''EUR''\<rparr>"

definition q15 :: point where
  "q15 = \<lparr>p_start = 900000, p_end = 1800000, p_value = Num 2, p_currency = Some ''EUR''\<rparr>"

definition q60 :: point where
  "q60 = \<lparr>p_start = 3600000, p_end = 7200000, p_value = Num 2, p_currency = Some ''EUR''\<rparr>"

definition q120 :: point where
  "q120 = \<lparr>p_start = 7200000, p_end = 10800000, p_value = Num 2, p_currency = Some ''EUR''\<rparr>"

definition r_backwards :: rawpoint where
  "r_backwards = \<lparr>r_start = Instant 3600000, r_end = Instant 0, r_value = Num 1,
                   r_currency = None\<rparr>"

definition r_unparsable :: rawpoint where
  "r_unparsable = \<lparr>r_start = Unparsable, r_end = Instant 0, r_value = Num 1,
                    r_currency = None\<rparr>"

definition r_millis :: rawpoint where
  "r_millis = \<lparr>r_start = Instant 1500, r_end = Instant 900000, r_value = Num 4,
                r_currency = None\<rparr>"

definition r_nan :: rawpoint where
  "r_nan = \<lparr>r_start = Instant 0, r_end = Instant 900000, r_value = NaN, r_currency = None\<rparr>"



definition r_year_33658 :: rawpoint where
  "r_year_33658 = \<lparr>r_start = Instant 1000000000000000, r_end = Instant 1000000003600000,
                    r_value = Num 1, r_currency = None\<rparr>"





text \<open>
  For the proofs about the normalizer: the sorted stage of an array of objects; a point
  whose timestamps are printed to the second; a point that is read back when it is passed
  in again (both years in 0000 to 9999, the value not NaN); the bucket that a single
  point opens; what holds of every bucket while a series is aggregated; a point that
  lasts a quarter of an hour.
\<close>

definition sortedOf :: "rawpoint list \<Rightarrow> point list" where
  "sortedOf ps = filterAndSort (map isoFields ps)"






section \<open>The read API\<close>

text \<open>
  A stored day object is a JSON value. An object keeps its own properties as a list of
  pairs, looked up by key; numbers are reals. A string is a list of bytes, so the code
  points of a non-ASCII string are counted as their UTF-8 bytes.
\<close>

datatype json =
    JNull
  | JBool bool
  | JNumber real
  | JString string
  | JArray "json list"
  | JObject "(string \<times> json) list"

fun truthy :: "json \<Rightarrow> bool" where
  "truthy JNull = False"
| "truthy (JBool b) = b"
| "truthy (JNumber r) = (r \<noteq> 0)"
| "truthy (JString s) = (s \<noteq> [])"
| "truthy (JArray xs) = True"
| "truthy (JObject fs) = True"

subsection \<open>Percent-decoding of a path segment\<close>

text \<open>
  \<^verbatim>\<open>decodeURIComponent\<close> either returns the decoded string or throws a URIError
  (here: \<open>None\<close>): when a percent sign is not followed by two hexadecimal digits, or
  when the escaped bytes are not the UTF-8 encoding of a code point.
\<close>

definition hexval :: "char \<Rightarrow> nat option" where
  "hexval c =
     (let n = (of_char c :: nat)
      in if 48 \<le> n \<and> n \<le> 57 then Some (n - 48)
         else if 65 \<le> n \<and> n \<le> 70 then Some (n - 55)
         else if 97 \<le> n \<and> n \<le> 102 then Some (n - 87)
         else None)"

fun escape_byte :: "string \<Rightarrow> nat option" where
  "escape_byte (h # l # rest) =
     (case (hexval h, hexval l) of (Some a, Some b) \<Rightarrow> Some (16 * a + b) | _ \<Rightarrow> None)"
| "escape_byte _ = None"

fun continuation_bytes :: "nat \<Rightarrow> string \<Rightarrow> nat list option" where
  "continuation_bytes 0 s = Some []"
| "continuation_bytes (Suc k) (p # s) =
     (if p = CHR ''%'' then
        (case escape_byte s of
           None \<Rightarrow> None
         | Some b \<Rightarrow> map_option ((#) b) (continuation_bytes k (drop 2 s)))
      else None)"
| "continuation_bytes (Suc k) [] = None"

definition utf8_length :: "nat \<Rightarrow> nat" where
  "utf8_length b =
     (if 192 \<le> b \<and> b < 224 then 2 else if 224 \<le> b \<and> b < 240 then 3
      else if 240 \<le> b \<and> b < 248 then 4 else 0)"

definition continuation :: "nat \<Rightarrow> bool" where
  "continuation b = (128 \<le> b \<and> b \<le> 191)"

fun valid_utf8 :: "nat list \<Rightarrow> bool" where
  "valid_utf8 [b0, b1] = (194 \<le> b0 \<and> b0 \<le> 223 \<and> continuation b1)"
| "valid_utf8 [b0, b1, b2] =
     (((b0 = 224 \<and> 160 \<le> b1 \<and> b1 \<le> 191) \<or> (225 \<le> b0 \<and> b0 \<le> 236 \<and> continuation b1)
        \<or> (b0 = 237 \<and> 128 \<le> b1 \<and> b1 \<le> 159) \<or> (238 \<le> b0 \<and> b0 \<le> 239 \<and> continuation b1))
      \<and> continuation b2)"
| "valid_utf8 [b0, b1, b2, b3] =
     (((b0 = 240 \<and> 144 \<le> b1 \<and> b1 \<le> 191) \<or> (241 \<le> b0 \<and> b0 \<le> 243 \<and> continuation b1)
        \<or> (b0 = 244 \<and> 128 \<le> b1 \<and> b1 \<le> 143))
      \<and> continuation b2 \<and> continuation b3)"
| "valid_utf8 bs = False"

fun decodeURIComponent :: "string \<Rightarrow> string option" where
  "decodeURIComponent [] = Some []"
| "decodeURIComponent (c # cs) =
     (if c \<noteq> CHR ''%'' then map_option ((#) c) (decodeURIComponent cs)
      else
        (case escape_byte cs of
           None \<Rightarrow> None
         | Some b \<Rightarrow>
             if b < 128 then map_option ((#) (char_of b)) (decodeURIComponent (drop 2 cs))
             else if utf8_length b = 0 then None
             else
               (case continuation_bytes (utf8_length b - 1) (drop 2 cs) of
                  None \<Rightarrow> None
                | Some bs \<Rightarrow>
                    if valid_utf8 (b # bs) then
                      map_option ((@) (map char_of (b # bs)))
                        (decodeURIComponent (drop (2 + 3 * (utf8_length b - 1)) cs))
                    else None)))"

subsection \<open>Walking a day object by a path\<close>

text \<open>\<^verbatim>\<open>split("/")\<close>: the pieces between slashes; the empty string gives one empty piece.\<close>

fun split_slash :: "string \<Rightarrow> string list" where
  "split_slash [] = [[]]"
| "split_slash (c # cs) =
     (if c = CHR ''/'' then [] # split_slash cs
      else (case split_slash cs of p # ps \<Rightarrow> (c # p) # ps | [] \<Rightarrow> [[c]]))"

definition is_digit :: "char \<Rightarrow> bool" where
  "is_digit c = (48 \<le> (of_char c :: nat) \<and> (of_char c :: nat) \<le> 57)"

text \<open>The test \<^verbatim>\<open>/^[0-9]+$/\<close> and the number that \<^verbatim>\<open>Number\<close> reads from such a segment.\<close>

definition all_digits :: "string \<Rightarrow> bool" where
  "all_digits s = (s \<noteq> [] \<and> list_all is_digit s)"

definition digits_value :: "string \<Rightarrow> nat" where
  "digits_value s = foldl (\<lambda>n c. 10 * n + ((of_char c :: nat) - 48)) 0 s"

text \<open>
  An index written the way a string's own index properties are named: no leading zero.
\<close>

definition canonical_index :: "string \<Rightarrow> bool" where
  "canonical_index s = (all_digits s \<and> (s = ''0'' \<or> hd s \<noteq> CHR ''0''))"

text \<open>
  One segment. An array with a digits segment is indexed, out of range giving undefined.
  Otherwise the segment must be an own property: a key of an object; \<^verbatim>\<open>length\<close> of an
  array; an index or \<^verbatim>\<open>length\<close> of a string; nothing on a number or a boolean. The
  result \<open>None\<close> is undefined.
\<close>

fun getSegment :: "json \<Rightarrow> string \<Rightarrow> json option" where
  "getSegment (JArray xs) part =
     (if all_digits part then
        (if digits_value part < length xs then Some (xs ! digits_value part) else None)
      else if part = ''length'' then Some (JNumber (real (length xs)))
      else None)"
| "getSegment (JObject fs) part = map_of fs part"
| "getSegment (JString s) part =
     (if canonical_index part \<and> digits_value part < length s
      then Some (JString [s ! digits_value part])
      else if part = ''length'' then Some (JNumber (real (length s)))
      else None)"
| "getSegment v part = None"

fun walkPath :: "json option \<Rightarrow> string list \<Rightarrow> json option" where
  "walkPath cur [] = cur"
| "walkPath cur (part # parts) =
     (case cur of
        None \<Rightarrow> None
      | Some JNull \<Rightarrow> None
      | Some v \<Rightarrow> walkPath (getSegment v part) parts)"

fun all_decoded :: "string option list \<Rightarrow> string list option" where
  "all_decoded [] = Some []"
| "all_decoded (None # ds) = None"
| "all_decoded (Some d # ds) = map_option ((#) d) (all_decoded ds)"

text \<open>
  \<^verbatim>\<open>_getByPath\<close>: \<open>Inl\<close> is the message of a thrown URIError, \<open>Inr None\<close> is undefined.
\<close>

definition getByPath :: "json \<Rightarrow> string \<Rightarrow> string + json option" where
  "getByPath rootObj pathString =
     (if pathString = [] \<or> pathString = ''/'' then Inr (Some rootObj)
      else
        (case all_decoded (map decodeURIComponent
                (split_slash (dropWhile (\<lambda>c. c = CHR ''/'') pathString))) of
           None \<Rightarrow> Inl ''URI malformed''
         | Some parts \<Rightarrow> Inr (walkPath (Some rootObj) parts)))"

subsection \<open>Fetching the day object\<close>

text \<open>
  The collaborators of the server. A method may be absent (the code probes for it), and a
  call may throw or reject: \<open>Inl\<close> carries the message. A returned object or date may be
  null or undefined: \<open>None\<close>.
\<close>

record priceService =
  ps_getDayObject :: "(string \<Rightarrow> string + json option) option"
  ps_getCurrentPriceDate :: "(string + string option) option"
  ps_isNextDayAvailable :: "(string + bool) option"
  ps_getNextPriceDate :: "(string + string option) option"
  ps_getPreviousPriceDate :: "(string + string option) option"
  ps_getCurrentDayObject :: "(string + json option) option"
  ps_getNextDayObject :: "(string + json option) option"
  ps_getPreviousDayObject :: "(string + json option) option"

record cacheAccess =
  ca_getPriceDataByDate :: "(string \<Rightarrow> string + json option) option"
  ca_priceDataExists :: "(string \<Rightarrow> string + bool) option"

record restServer =
  rs_priceService :: "priceService option"
  rs_cacheAccess :: "cacheAccess option"

text \<open>The test \<^verbatim>\<open>/^\d{4}-\d{2}-\d{2}$/\<close>.\<close>

fun isValidDateFormat :: "string \<Rightarrow> bool" where
  "isValidDateFormat [y1, y2, y3, y4, d1, m1, m2, d2, a1, a2] =
     (is_digit y1 \<and> is_digit y2 \<and> is_digit y3 \<and> is_digit y4 \<and> d1 = CHR ''-''
      \<and> is_digit m1 \<and> is_digit m2 \<and> d2 = CHR ''-'' \<and> is_digit a1 \<and> is_digit a2)"
| "isValidDateFormat s = False"

definition bind_outcome :: "string + 'a \<Rightarrow> ('a \<Rightarrow> string + 'b) \<Rightarrow> string + 'b" where
  "bind_outcome r f = (case r of Inl e \<Rightarrow> Inl e | Inr v \<Rightarrow> f v)"

text \<open>An optional call \<^verbatim>\<open>ps?.method?.()\<close>: undefined when the method is absent.\<close>

definition call_optional :: "(string + 'a option) option \<Rightarrow> string + 'a option" where
  "call_optional m = (case m of None \<Rightarrow> Inr None | Some r \<Rightarrow> r)"

definition truthy_object :: "json option \<Rightarrow> bool" where
  "truthy_object obj = (case obj of None \<Rightarrow> False | Some v \<Rightarrow> truthy v)"

text \<open>Strategy 1: the getter by date. \<open>Inr (Some obj)\<close> is a truthy object to return.\<close>

definition fromDayGetter :: "priceService option \<Rightarrow> string \<Rightarrow> string + json option" where
  "fromDayGetter ps date =
     (case ps of
        None \<Rightarrow> Inr None
      | Some p \<Rightarrow>
          (case ps_getDayObject p of
             None \<Rightarrow> Inr None
           | Some getDayObject \<Rightarrow>
               bind_outcome (getDayObject date)
                 (\<lambda>obj. if truthy_object obj then Inr obj else Inr None)))"

text \<open>
  One of the three slot tests of strategy 2: when the date matches and the getter exists,
  call it and return a truthy object; otherwise go on.
\<close>

definition trySlot ::
  "bool \<Rightarrow> (string + json option) option \<Rightarrow> (string + json option) \<Rightarrow> string + json option"
where
  "trySlot matches getter otherwise =
     (case getter of
        None \<Rightarrow> otherwise
      | Some call \<Rightarrow>
          if matches then
            bind_outcome call (\<lambda>obj. if truthy_object obj then Inr obj else otherwise)
          else otherwise)"

definition fromLiveSlots :: "priceService option \<Rightarrow> string \<Rightarrow> string + json option" where
  "fromLiveSlots ps date =
     (case ps of
        None \<Rightarrow> Inr None
      | Some p \<Rightarrow>
          bind_outcome (call_optional (ps_getCurrentPriceDate p)) (\<lambda>currentDate.
          bind_outcome (case ps_isNextDayAvailable p of None \<Rightarrow> Inr False | Some r \<Rightarrow> r)
            (\<lambda>available.
          bind_outcome (if available then call_optional (ps_getNextPriceDate p) else Inr None)
            (\<lambda>nextDate.
          bind_outcome (call_optional (ps_getPreviousPriceDate p)) (\<lambda>previousDate.
            trySlot (currentDate = Some date) (ps_getCurrentDayObject p)
              (trySlot (nextDate = Some date) (ps_getNextDayObject p)
                 (trySlot (previousDate = Some date) (ps_getPreviousDayObject p)
                    (Inr None))))))))"

text \<open>Strategy 3: the cache. Whatever is thrown here is caught and null is returned.\<close>

definition fromCache :: "cacheAccess option \<Rightarrow> string \<Rightarrow> json option" where
  "fromCache ca date =
     (case ca of
        None \<Rightarrow> None
      | Some c \<Rightarrow>
          (case (ca_getPriceDataByDate c, ca_priceDataExists c) of
             (Some getPriceDataByDate, Some priceDataExists) \<Rightarrow>
               (case priceDataExists date of
                  Inl e \<Rightarrow> None
                | Inr exists \<Rightarrow>
                    if \<not> exists then None
                    else
                      (case getPriceDataByDate date of
                         Inl e \<Rightarrow> None
                       | Inr cached \<Rightarrow> if truthy_object cached then cached else None))
           | _ \<Rightarrow> None))"

definition fetchPriceObject :: "restServer \<Rightarrow> string \<Rightarrow> json option" where
  "fetchPriceObject srv date =
     (if \<not> isValidDateFormat date then None
      else
        (case fromDayGetter (rs_priceService srv) date of
           Inr (Some obj) \<Rightarrow> Some obj
         | _ \<Rightarrow>
             (case fromLiveSlots (rs_priceService srv) date of
                Inr (Some obj) \<Rightarrow> Some obj
              | _ \<Rightarrow> fromCache (rs_cacheAccess srv) date)))"

subsection \<open>The generic path route\<close>

text \<open>
  A response is either \<^verbatim>\<open>res.json(value)\<close> or the error body that \<^verbatim>\<open>_sendError\<close>
  sends with its status and message.
\<close>

datatype response = JsonBody json | ErrorBody nat string

definition normalizedPath :: "string \<Rightarrow> string" where
  "normalizedPath path = (if path \<noteq> [] \<and> hd path = CHR ''/'' then path else CHR ''/'' # path)"

definition genericPathRoute :: "restServer \<Rightarrow> string \<Rightarrow> string \<Rightarrow> response" where
  "genericPathRoute srv date path =
     (if rs_priceService srv = None then ErrorBody 500 ''Price service not initialized''
      else if \<not> isValidDateFormat date then
        ErrorBody 400 ''Invalid date format. Expected YYYY-MM-DD.''
      else
        (case fetchPriceObject srv date of
           None \<Rightarrow> ErrorBody 404 (''Price data not available for date: '' @ date)
         | Some obj \<Rightarrow>
             (case getByPath obj path of
                Inl message \<Rightarrow> ErrorBody 500 message
              | Inr None \<Rightarrow> ErrorBody 404 (''Path not found: '' @ normalizedPath path)
              | Inr (Some v) \<Rightarrow> JsonBody v)))"






subsection \<open>The router\<close>









text \<open>Sample servers and day objects for the instances below.\<close>

definition noMethods :: priceService where
  "noMethods = \<lparr>ps_getDayObject = None, ps_getCurrentPriceDate = None,
     ps_isNextDayAvailable = None, ps_getNextPriceDate = None, ps_getPreviousPriceDate = None,
     ps_getCurrentDayObject = None, ps_getNextDayObject = None,
     ps_getPreviousDayObject = None\<rparr>"

definition hourEntry :: json where
  "hourEntry = JObject [(''spotPrice'', JNumber 1)]"

definition sampleDay :: json where
  "sampleDay = JObject [(''priceDate'', JString ''2024-01-01''),
                       (''daily'', JObject [(''avgPrice'', JNumber 1.23)]),
                       (''hourly'', JArray (replicate 24 hourEntry))]"

definition cachedServer :: restServer where
  "cachedServer = \<lparr>rs_priceService = Some noMethods,
     rs_cacheAccess = Some \<lparr>ca_getPriceDataByDate = Some (\<lambda>d. Inr (Some sampleDay)),
                             ca_priceDataExists = Some (\<lambda>d. Inr True)\<rparr>\<rparr>"



definition unreachableCacheServer :: restServer where
  "unreachableCacheServer = \<lparr>rs_priceService = Some noMethods,
     rs_cacheAccess = Some \<lparr>ca_getPriceDataByDate = Some (\<lambda>d. Inl ''connect ECONNREFUSED''),
                             ca_priceDataExists = Some (\<lambda>d. Inl ''connect ECONNREFUSED'')\<rparr>\<rparr>"

section \<open>The price manager\<close>

text \<open>
  The caches are UniCache instances, the fetchers come from the package
  energy-price-fetcher, the MQTT client and the clock are outside the code too. A cache is
  modelled by its entries in insertion order: \<^verbatim>\<open>has\<close> and \<^verbatim>\<open>retrieveObject\<close> look a
  key up, \<^verbatim>\<open>createObject\<close> stores, \<^verbatim>\<open>deleteObject\<close> removes, \<^verbatim>\<open>keys\<close> lists the keys;
  once initialised these operations do not fail. What the fetchers, the MQTT client, the
  clock and the date parser of \<^verbatim>\<open>Date\<close> answer is given by a record of the outside
  world. A call that throws or rejects returns \<open>Inl\<close> with the message. Every call that
  leaves the process is appended to the manager's list of calls.
\<close>

text \<open>A stored day object is a JavaScript object, given by its own properties.\<close>

type_synonym dayObject = "(string \<times> json) list"

text \<open>
  A currency payload is an object with a string \<^verbatim>\<open>date\<close> and further own properties
  (\<^verbatim>\<open>rates\<close>, \<^verbatim>\<open>fetchedAt\<close>, ...), which \<open>cr_fields\<close> lists.
\<close>

record currencyData =
  cr_date :: string
  cr_fields :: "(string \<times> json) list"

datatype payload = JsonText dayObject | EmptyText

datatype call =
    FetchPrices int string
  | FetchCurrencies
  | CreatePrice string dayObject
  | CreateCurrency string currencyData
  | DeleteCurrency string
  | Publish string payload bool nat

record manager =
  enableMqtt :: bool
  mqttClient :: bool
  priceTopic :: string
  cacheReady :: "string option"
  priceCache :: "(string \<times> dayObject) list"
  backendHas :: "(string \<Rightarrow> string + bool) option"
  currencyFetcher :: bool
  currencyCacheReady :: "string option"
  currencyCache :: "(string \<times> currencyData) list"
  currencyRateCache :: "(string \<times> real) list"
  currencyKeepDays :: int
  calls :: "call list"

text \<open>
  The outside world: the local date of today plus an offset as \<^verbatim>\<open>getDateForOffset\<close>
  prints it; the date of \<^verbatim>\<open>toISOString\<close> for today plus an offset; the current
  instant; what \<^verbatim>\<open>new Date(string)\<close> reads (or an invalid date); the answers of the
  two fetchers; and for a publish either the acknowledgement or the rejection.
\<close>

record world =
  dateForOffset :: "int \<Rightarrow> string"
  isoDay :: "int \<Rightarrow> string"
  now :: int
  parseDate :: "string \<Rightarrow> int option"
  fetchPricesResult :: "int \<Rightarrow> string \<Rightarrow> string + dayObject"
  fetchCurrenciesResult :: "string + currencyData"
  publishResult :: "string \<Rightarrow> payload \<Rightarrow> string option"

definition PRICE_KEY_PREFIX :: string where
  "PRICE_KEY_PREFIX = ''prices-''"

definition CURRENCY_KEY_PREFIX :: string where
  "CURRENCY_KEY_PREFIX = ''currencies-''"

definition getPriceKey :: "string \<Rightarrow> string" where
  "getPriceKey dateStr = PRICE_KEY_PREFIX @ dateStr"

definition has_key :: "('k \<times> 'v) list \<Rightarrow> 'k \<Rightarrow> bool" where
  "has_key cache key = (map_of cache key \<noteq> None)"

definition ensureCacheReady :: "manager \<Rightarrow> string + unit" where
  "ensureCacheReady m = (case cacheReady m of None \<Rightarrow> Inr () | Some e \<Rightarrow> Inl e)"

definition priceDataExists :: "manager \<Rightarrow> string \<Rightarrow> string + bool" where
  "priceDataExists m dateStr =
     bind_outcome (ensureCacheReady m) (\<lambda>_.
       let key = getPriceKey dateStr;
           fromBackend = (case backendHas m of
                            None \<Rightarrow> False
                          | Some backend_has \<Rightarrow>
                              (case backend_has key of Inl e \<Rightarrow> False | Inr exists \<Rightarrow> exists))
       in if fromBackend then Inr True else Inr (has_key (priceCache m) key))"

definition getPriceDataByDate :: "manager \<Rightarrow> string \<Rightarrow> string + dayObject option" where
  "getPriceDataByDate m dateStr =
     bind_outcome (ensureCacheReady m) (\<lambda>_. Inr (map_of (priceCache m) (getPriceKey dateStr)))"

subsection \<open>Currency rates\<close>

text \<open>
  \<^verbatim>\<open>stableStringify\<close> prints a value with the keys of every object sorted; the model keeps
  the sorted tree, which the printed string determines and is determined by.
\<close>

fun stableTree :: "json \<Rightarrow> json" where
  "stableTree (JObject fs) = JObject (sort_key fst (map (\<lambda>kv. (fst kv, stableTree (snd kv))) fs))"
| "stableTree (JArray xs) = JArray (map stableTree xs)"
| "stableTree v = v"

definition stripFetchedAt :: "currencyData \<Rightarrow> currencyData" where
  "stripFetchedAt data = data\<lparr>cr_fields := AList.delete ''fetchedAt'' (cr_fields data)\<rparr>"

definition stableStringify :: "currencyData \<Rightarrow> string \<times> json" where
  "stableStringify data = (cr_date data, stableTree (JObject (cr_fields data)))"

definition fetchAndStoreCurrencyRates ::
  "world \<Rightarrow> manager \<Rightarrow> (string + currencyData option) \<times> manager"
where
  "fetchAndStoreCurrencyRates w m =
     (if \<not> currencyFetcher m then (Inr None, m)
      else
        (case currencyCacheReady m of
           Some e \<Rightarrow> (Inl e, m)
         | None \<Rightarrow>
             let m1 = m\<lparr>calls := calls m @ [FetchCurrencies]\<rparr>
             in (case fetchCurrenciesResult w of
                   Inl e \<Rightarrow> (Inl e, m1)
                 | Inr data \<Rightarrow>
                     let dateKey = CURRENCY_KEY_PREFIX @ cr_date data;
                         latestKey = CURRENCY_KEY_PREFIX @ ''latest'';
                         existing = map_of (currencyCache m1) dateKey;
                         incomingSignature = stableStringify (stripFetchedAt data);
                         hasChanges = (case existing of
                                         None \<Rightarrow> True
                                       | Some e \<Rightarrow>
                                           stableStringify (stripFetchedAt e) \<noteq> incomingSignature)
                     in if hasChanges then
                          (Inr (Some data),
                           m1\<lparr>currencyCache :=
                                 AList.update latestKey data
                                   (AList.update dateKey data (currencyCache m1)),
                               currencyRateCache := [],
                               calls := calls m1 @ [CreateCurrency dateKey data,
                                                    CreateCurrency latestKey data]\<rparr>)
                        else
                          (case existing of
                             Some e \<Rightarrow>
                               if \<not> has_key (currencyCache m1) latestKey then
                                 (Inr (Some data),
                                  m1\<lparr>currencyCache := AList.update latestKey e (currencyCache m1),
                                      calls := calls m1 @ [CreateCurrency latestKey e]\<rparr>)
                               else (Inr (Some data), m1)
                           | None \<Rightarrow> (Inr (Some data), m1)))))"

text \<open>\<^verbatim>\<open>ensureCurrencyRates\<close> catches whatever is thrown and only logs it.\<close>

definition ensureCurrencyRates :: "world \<Rightarrow> manager \<Rightarrow> manager" where
  "ensureCurrencyRates w m =
     (if \<not> currencyFetcher m then m
      else
        (case currencyCacheReady m of
           Some e \<Rightarrow> m
         | None \<Rightarrow>
             let latest = map_of (currencyCache m) (CURRENCY_KEY_PREFIX @ ''latest'');
                 today = isoDay w 0;
                 stale = (case latest of None \<Rightarrow> True | Some l \<Rightarrow> cr_date l \<noteq> today)
             in if stale then snd (fetchAndStoreCurrencyRates w m) else m))"

text \<open>
  The retention sweep. The constructor always creates the currency cache, so the guard
  \<^verbatim>\<open>if (!this.currencyCache) return\<close> never fires. The cutoff is the current instant set
  back by the keep-window in days.
\<close>

definition startsWith :: "string \<Rightarrow> string \<Rightarrow> bool" where
  "startsWith s p = (take (length p) s = p)"

definition expiredCurrencyKey :: "world \<Rightarrow> manager \<Rightarrow> string \<Rightarrow> bool" where
  "expiredCurrencyKey w m key =
     (if \<not> startsWith key CURRENCY_KEY_PREFIX then False
      else
        let dateStr = drop (length CURRENCY_KEY_PREFIX) key
        in if dateStr = ''latest'' then False
           else
             (case parseDate w dateStr of
                None \<Rightarrow> False
              | Some fileDate \<Rightarrow> fileDate < now w - currencyKeepDays m * 86400000))"

definition cleanupStep :: "world \<Rightarrow> manager \<Rightarrow> string \<Rightarrow> manager" where
  "cleanupStep w m key =
     (if expiredCurrencyKey w m key then
        m\<lparr>currencyCache := AList.delete key (currencyCache m),
          calls := calls m @ [DeleteCurrency key]\<rparr>
      else m)"

definition cleanupCurrencyCache :: "world \<Rightarrow> manager \<Rightarrow> (string + unit) \<times> manager" where
  "cleanupCurrencyCache w m =
     (case currencyCacheReady m of
        Some e \<Rightarrow> (Inl e, m)
      | None \<Rightarrow> (Inr (), foldl (cleanupStep w) m (map fst (currencyCache m))))"

subsection \<open>Fetching prices into the cache\<close>

definition fetchPricesOnly ::
  "world \<Rightarrow> manager \<Rightarrow> int \<Rightarrow> string \<Rightarrow> (string + dayObject option) \<times> manager"
where
  "fetchPricesOnly w m dayOffset preferSource =
     (case ensureCacheReady m of
        Inl e \<Rightarrow> (Inl e, m)
      | Inr _ \<Rightarrow>
          let m1 = ensureCurrencyRates w m;
              dateStr = dateForOffset w dayOffset
          in (case priceDataExists m1 dateStr of
                Inl e \<Rightarrow> (Inl e, m1)
              | Inr exists \<Rightarrow>
                  if exists then (Inr (map_of (priceCache m1) (getPriceKey dateStr)), m1)
                  else
                    let m2 = m1\<lparr>calls := calls m1 @ [FetchPrices dayOffset preferSource]\<rparr>
                    in (case fetchPricesResult w dayOffset preferSource of
                          Inl e \<Rightarrow> (Inl e, m2)
                        | Inr prices \<Rightarrow>
                            (Inr (Some prices),
                             m2\<lparr>priceCache :=
                                   AList.update (getPriceKey dateStr) prices (priceCache m2),
                                 calls := calls m2 @ [CreatePrice (getPriceKey dateStr) prices]\<rparr>))))"

subsection \<open>Publishing across the day boundary\<close>

text \<open>
  One guarded publish of \<^verbatim>\<open>handleMqttPublishing\<close>: the day's data is read from the cache
  and, when there is any, published to the day's topic with retain set and qos 1; a
  rejected publish throws. \<open>retract\<close> chooses the empty payload.
\<close>

definition publishDay :: "world \<Rightarrow> bool \<Rightarrow> string \<Rightarrow> manager \<Rightarrow> (string + unit) \<times> manager" where
  "publishDay w retract day m =
     (case getPriceDataByDate m day of
        Inl e \<Rightarrow> (Inl e, m)
      | Inr None \<Rightarrow> (Inr (), m)
      | Inr (Some dayData) \<Rightarrow>
          let topic = priceTopic m @ ''/'' @ day;
              text = (if retract then EmptyText else JsonText dayData);
              m1 = m\<lparr>calls := calls m @ [Publish topic text True 1]\<rparr>
          in (case publishResult w topic text of
                Some e \<Rightarrow> (Inl e, m1)
              | None \<Rightarrow> (Inr (), m1)))"

definition andThen ::
  "(string + unit) \<times> manager \<Rightarrow> (manager \<Rightarrow> (string + unit) \<times> manager)
     \<Rightarrow> (string + unit) \<times> manager"
where
  "andThen r f = (case fst r of Inl e \<Rightarrow> r | Inr _ \<Rightarrow> f (snd r))"

text \<open>
  \<^verbatim>\<open>getAllCachedDates\<close> and \<^verbatim>\<open>getLatestDates\<close> only read the cache and their results
  are not used; they throw when the cache did not initialise. Whatever is thrown inside
  the function is caught and logged, so only the manager is returned.
\<close>

definition handleMqttPublishing :: "world \<Rightarrow> manager \<Rightarrow> manager" where
  "handleMqttPublishing w m =
     (if \<not> mqttClient m \<or> \<not> enableMqtt m then m
      else
        (case ensureCacheReady m of
           Inl e \<Rightarrow> m
         | Inr _ \<Rightarrow>
             let today = isoDay w 0;
                 tomorrow = isoDay w 1
             in (case priceDataExists m tomorrow of
                   Inl e \<Rightarrow> m
                 | Inr tomorrowAvailable \<Rightarrow>
                     if tomorrowAvailable then
                       snd (andThen (andThen (publishDay w False today m)
                                       (publishDay w False tomorrow))
                              (publishDay w True (isoDay w (- 1))))
                     else
                       snd (andThen (andThen (publishDay w False (isoDay w (- 1)) m)
                                       (publishDay w False today))
                              (publishDay w True (isoDay w (- 2)))))))"

text \<open>The calls that reach the upstream price source or write the price cache.\<close>

fun isPriceCall :: "call \<Rightarrow> bool" where
  "isPriceCall (FetchPrices dayOffset preferSource) = True"
| "isPriceCall (CreatePrice key prices) = True"
| "isPriceCall c = False"

text \<open>A sample manager and a sample world for the instances below.\<close>

definition day1 :: dayObject where
  "day1 = [(''priceDate'', JString ''2024-01-01'')]"

definition day2 :: dayObject where
  "day2 = [(''priceDate'', JString ''2024-01-02'')]"

definition day3 :: dayObject where
  "day3 = [(''priceDate'', JString ''2024-01-03'')]"

definition sampleRates :: currencyData where
  "sampleRates = \<lparr>cr_date = ''2024-01-02'',
     cr_fields = [(''rates'', JObject [(''NOK'', JNumber 11.5), (''SEK'', JNumber 11.2)]),
                  (''fetchedAt'', JString ''2024-01-02T06:00:00Z'')]\<rparr>"

definition sampleRatesLater :: currencyData where
  "sampleRatesLater = \<lparr>cr_date = ''2024-01-02'',
     cr_fields = [(''fetchedAt'', JString ''2024-01-02T12:00:00Z''),
                  (''rates'', JObject [(''SEK'', JNumber 11.2), (''NOK'', JNumber 11.5)])]\<rparr>"

definition oldRates :: currencyData where
  "oldRates = \<lparr>cr_date = ''2023-12-01'',
     cr_fields = [(''rates'', JObject [(''NOK'', JNumber 11.9)])]\<rparr>"

definition sampleManager :: manager where
  "sampleManager = \<lparr>enableMqtt = True, mqttClient = True, priceTopic = ''elwiz/prices'',
     cacheReady = None,
     priceCache = [(''prices-2024-01-01'', day1), (''prices-2024-01-02'', day2),
                   (''prices-2024-01-03'', day3)],
     backendHas = None, currencyFetcher = True, currencyCacheReady = None,
     currencyCache = [(''currencies-latest'', sampleRates),
                      (''currencies-2024-01-02'', sampleRates),
                      (''currencies-2023-12-01'', oldRates),
                      (''settings'', oldRates)],
     currencyRateCache = [(''NOK'', 11.5)], currencyKeepDays = 7, calls = []\<rparr>"

definition freshManager :: manager where
  "freshManager = sampleManager\<lparr>currencyCache := []\<rparr>"

definition sampleDates :: "int \<Rightarrow> string" where
  "sampleDates n = (if n = 0 then ''2024-01-02'' else if n = 1 then ''2024-01-03''
                    else if n = - 1 then ''2024-01-01'' else ''2023-12-31'')"

definition sampleWorld :: world where
  "sampleWorld = \<lparr>dateForOffset = sampleDates, isoDay = sampleDates, now = 1704200000000,
     parseDate = (\<lambda>s. if s = ''2024-01-02'' then Some 1704153600000
                       else if s = ''2023-12-01'' then Some 1701388800000 else None),
     fetchPricesResult = (\<lambda>dayOffset preferSource. Inl ''prices are not ready''),
     fetchCurrenciesResult = Inr sampleRates,
     publishResult = (\<lambda>topic text. None)\<rparr>"

definition laterWorld :: world where
  "laterWorld = sampleWorld\<lparr>fetchCurrenciesResult := Inr sampleRatesLater\<rparr>"

section \<open>Properties of the normalizer\<close>

subsection \<open>Degenerate input\<close>

text \<open>
  C9. For an argument that is not an array, and for the empty array, normalizeSeries
  returns the empty series, whatever the target interval is.
\<close>

theorem normalizeSeries_degenerate:
  "normalizeSeries NotArray targetInterval = Inr []
   \<and> normalizeSeries (Array []) targetInterval = Inr []"
  by (simp add: normalizeSeries_def)

subsection \<open>Interval detection\<close>

lemma detect_short: "length points < 2 \<Longrightarrow> detectInterval points = None"
  by (simp add: detectInterval_def)

lemma detect_gap:
  assumes "2 \<le> length points"
  shows "detectInterval points =
     (let d = math_round_div (p_start (points ! 1) - p_start (points ! 0)) 60000
      in if d = 15 then Some ''15m'' else if d = 60 then Some ''1h''
         else if length points > 48 then Some ''15m'' else Some ''1h'')"
  using assms by (simp add: detectInterval_def Let_def)

lemma round_15: "math_round_div (15 * 60000) 60000 = 15"
  by (simp add: math_round_div_def)

lemma round_60: "math_round_div (60 * 60000) 60000 = 60"
  by (simp add: math_round_div_def)

text \<open>
  C3, as the code has it. A series of fewer than two points has no detected interval:
  detectInterval returns null, not the result of the count heuristic. With two points or
  more, a gap of exactly 15 minutes between the first two gives "15m", a gap of exactly
  60 minutes gives "1h", and any gap that rounds to neither falls back to the count
  heuristic (more than 48 points: "15m", otherwise "1h").
\<close>

theorem detectInterval_cases:
  "(length points < 2 \<longrightarrow> detectInterval points = None) \<and>
   (2 \<le> length points \<and> p_start (points ! 1) - p_start (points ! 0) = 15 * 60000
      \<longrightarrow> detectInterval points = Some ''15m'') \<and>
   (2 \<le> length points \<and> p_start (points ! 1) - p_start (points ! 0) = 60 * 60000
      \<longrightarrow> detectInterval points = Some ''1h'') \<and>
   (2 \<le> length points
      \<and> math_round_div (p_start (points ! 1) - p_start (points ! 0)) 60000 \<noteq> 15
      \<and> math_round_div (p_start (points ! 1) - p_start (points ! 0)) 60000 \<noteq> 60
      \<longrightarrow> detectInterval points = (if length points > 48 then Some ''15m'' else Some ''1h''))"
proof (intro conjI impI)
  assume "length points < 2"
  then show "detectInterval points = None" by (rule detect_short)
next
  assume "2 \<le> length points \<and> p_start (points ! 1) - p_start (points ! 0) = 15 * 60000"
  then show "detectInterval points = Some ''15m''"
    using round_15 by (simp only: detect_gap Let_def) simp
next
  assume "2 \<le> length points \<and> p_start (points ! 1) - p_start (points ! 0) = 60 * 60000"
  then show "detectInterval points = Some ''1h''"
    using round_60 by (simp only: detect_gap Let_def) simp
next
  assume "2 \<le> length points
      \<and> math_round_div (p_start (points ! 1) - p_start (points ! 0)) 60000 \<noteq> 15
      \<and> math_round_div (p_start (points ! 1) - p_start (points ! 0)) 60000 \<noteq> 60"
  then show "detectInterval points = (if length points > 48 then Some ''15m'' else Some ''1h'')"
    by (simp only: detect_gap Let_def) simp
qed

text \<open>
  The four cases at sample series: one point; two points 15 minutes apart; two points 60
  minutes apart; two points 120 minutes apart.
\<close>

theorem detectInterval_cases_witness:
  "detectInterval [q0] = None \<and> detectInterval [q0, q15] = Some ''15m''
   \<and> detectInterval [q0, q60] = Some ''1h'' \<and> detectInterval [q0, q120] = Some ''1h''"
  using detectInterval_cases [of "[q0]"] detectInterval_cases [of "[q0, q15]"]
    detectInterval_cases [of "[q0, q60]"] detectInterval_cases [of "[q0, q120]"]
  by (simp add: q0_def q15_def q60_def q120_def math_round_div_def)

text \<open>
  C3 as stated fails for a series of one point: the count heuristic would answer "1h"
  there, the code answers null.
\<close>

theorem detectInterval_single_point_null:
  "detectInterval [q0] = None
   \<and> detectInterval [q0] \<noteq> (if length [q0] > 48 then Some ''15m'' else Some ''1h'')"
  by (simp add: detectInterval_def)

subsection \<open>The filter and the sort\<close>

lemma keepPoint_iff:
  "keepPoint p \<longleftrightarrow> isValidDate (r_start p) \<and> isValidDate (r_end p) \<and> r_value p \<noteq> NaN"
  by (cases "r_start p"; cases "r_end p") (simp_all add: keepPoint_def)

lemma isValidDate_iff: "isValidDate t \<longleftrightarrow> (\<exists>s. t = Instant s)"
  by (cases t) simp_all

lemma isValidDate_toLocalIso:
  "isValidDate (toLocalIso t) \<longleftrightarrow> (\<exists>s. t = Instant s \<and> readableYear (formatISO s))"
  by (cases t) (simp_all add: parsePrinted_def)

lemma keepPoint_isoFields:
  "keepPoint (isoFields p) \<longleftrightarrow>
     isValidDate (toLocalIso (r_start p)) \<and> isValidDate (toLocalIso (r_end p)) \<and> r_value p \<noteq> NaN"
  by (simp add: keepPoint_iff isoFields_def)

lemma asPoint_isoFields:
  "r_start p = Instant s \<Longrightarrow> readableYear (formatISO s) \<Longrightarrow>
   r_end p = Instant e \<Longrightarrow> readableYear (formatISO e) \<Longrightarrow>
   asPoint (isoFields p) = Some \<lparr>p_start = formatISO s, p_end = formatISO e,
                                p_value = r_value p, p_currency = r_currency p\<rparr>"
  by (simp add: isoFields_def asPoint_def parsePrinted_def)

lemma asPoint_keep: "keepPoint p \<Longrightarrow> asPoint p \<noteq> None"
  by (cases "r_start p"; cases "r_end p") (simp_all add: keepPoint_def asPoint_def)

lemma keep_and_typed: "(keepPoint x \<and> (\<exists>y. asPoint x = Some y)) = keepPoint x"
  using asPoint_keep [of x] by blast

lemma sortedOf_alt:
  "sortedOf ps =
     sort_key p_start (map (the \<circ> asPoint \<circ> isoFields) (filter (keepPoint \<circ> isoFields) ps))"
  by (simp add: sortedOf_def filterAndSort_def List.map_filter_def filter_map keep_and_typed
      comp_def)

lemma length_sortedOf:
  "length (sortedOf ps) = length (filter (\<lambda>p. keepPoint (isoFields p)) ps)"
  by (simp add: sortedOf_alt comp_def)

lemma set_sortedOf:
  "set (sortedOf ps) = (\<lambda>p. the (asPoint (isoFields p))) ` {p \<in> set ps. keepPoint (isoFields p)}"
  by (simp add: sortedOf_alt comp_def)

lemma sorted_sortedOf: "sorted (map p_start (sortedOf ps))"
  by (simp add: sortedOf_def filterAndSort_def)

lemma sortedOf_member:
  "q \<in> set (sortedOf ps) \<longleftrightarrow>
      (\<exists>p\<in>set ps. \<exists>s e. r_start p = Instant s \<and> readableYear (formatISO s)
         \<and> r_end p = Instant e \<and> readableYear (formatISO e) \<and> r_value p \<noteq> NaN
         \<and> q = \<lparr>p_start = formatISO s, p_end = formatISO e,
                 p_value = r_value p, p_currency = r_currency p\<rparr>)" (is "?L \<longleftrightarrow> ?R")
proof
  assume ?L
  then obtain p where p: "p \<in> set ps" "keepPoint (isoFields p)" "q = the (asPoint (isoFields p))"
    unfolding set_sortedOf by blast
  from p(2) obtain s e where se: "r_start p = Instant s" "readableYear (formatISO s)"
    "r_end p = Instant e" "readableYear (formatISO e)" "r_value p \<noteq> NaN"
    unfolding keepPoint_isoFields isValidDate_toLocalIso by blast
  with p(3) have "q = \<lparr>p_start = formatISO s, p_end = formatISO e,
               p_value = r_value p, p_currency = r_currency p\<rparr>"
    by (simp add: asPoint_isoFields)
  with p(1) se show ?R by blast
next
  assume ?R
  then obtain p s e where p: "p \<in> set ps" "r_start p = Instant s" "readableYear (formatISO s)"
    "r_end p = Instant e" "readableYear (formatISO e)"
    "r_value p \<noteq> NaN" "q = \<lparr>p_start = formatISO s, p_end = formatISO e,
               p_value = r_value p, p_currency = r_currency p\<rparr>"
    by blast
  then have "keepPoint (isoFields p)" "q = the (asPoint (isoFields p))"
    by (simp_all add: keepPoint_isoFields parsePrinted_def asPoint_isoFields)
  with p(1) show ?L unfolding set_sortedOf by blast
qed

text \<open>The map over the elements.\<close>

lemma mapPoint_object: "mapPoint (Some p) = Inr (isoFields p)"
  by (simp add: mapPoint_def)

lemma mapArray_objects: "mapArray mapPoint (map Some ps) = Inr (map isoFields ps)"
  by (induction ps) (simp_all add: mapPoint_object)

lemma mapArray_null: "None \<in> set elems \<Longrightarrow> mapArray mapPoint elems = Inl TypeError"
proof (induction elems)
  case Nil
  then show ?case by simp
next
  case (Cons x xs)
  show ?case
  proof (cases x)
    case None
    then show ?thesis by (simp add: mapPoint_def)
  next
    case (Some p)
    then have "None \<in> set xs" using Cons.prems by simp
    then have ih: "mapArray mapPoint xs = Inl TypeError" by (rule Cons.IH)
    have "mapPoint x = Inr (isoFields p)" by (simp add: Some mapPoint_def)
    then show ?thesis by (simp add: ih)
  qed
qed


lemma sortedPoints_objects: "sortedPoints (map Some ps) = Inr (sortedOf ps)"
  by (simp add: sortedPoints_def mapArray_objects sortedOf_def)

lemma sortedPoints_null: "None \<in> set elems \<Longrightarrow> sortedPoints elems = Inl TypeError"
  by (simp add: sortedPoints_def mapArray_null)

lemma normalizeSeries_null:
  "None \<in> set elems \<Longrightarrow> normalizeSeries (Array elems) targetInterval = Inl TypeError"
  by (cases elems) (simp_all add: normalizeSeries_def sortedPoints_null)

lemma normalizeSeries_objects:
  "normalizeSeries (Array (map Some ps)) tgt = Inr
     (if tgt = ''1h'' then (if detectInterval (sortedOf ps) = Some ''1h'' then sortedOf ps
                            else aggregateToHourly (sortedOf ps))
      else if tgt = ''15m'' then (if detectInterval (sortedOf ps) = Some ''15m''
                                  then sortedOf ps
                                  else expandToQuarterHour (sortedOf ps))
      else sortedOf ps)"
  by (cases "ps = []")
    (simp_all add: normalizeSeries_def Let_def sortedPoints_objects sortedOf_def filterAndSort_def
      List.map_filter_def detectInterval_def aggregateToHourly_def expandToQuarterHour_def)


text \<open>
  C4, as the code has it. An array with a null or undefined element makes normalizeSeries
  throw a TypeError. For an array of objects whose fields are plain data no error is
  raised, and the points that reach the sorted stage are exactly the input points whose
  start and end both parse and print with a year in 0000 to 9999 and whose value is not
  NaN, each with its timestamps reprinted to the second; every other point is dropped
  silently. No point is dropped for its start being at or after its end. The stage is
  sorted ascending by start.
\<close>

theorem sortedPoints_filter:
  "(None \<in> set elems \<longrightarrow>
      sortedPoints elems = Inl TypeError \<and> normalizeSeries (Array elems) tgt = Inl TypeError)
   \<and> (\<exists>out. sortedPoints (map Some ps) = Inr out
         \<and> (q \<in> set out \<longleftrightarrow>
              (\<exists>p\<in>set ps. \<exists>s e. r_start p = Instant s \<and> readableYear (formatISO s)
                 \<and> r_end p = Instant e \<and> readableYear (formatISO e) \<and> r_value p \<noteq> NaN
                 \<and> q = \<lparr>p_start = formatISO s, p_end = formatISO e,
                         p_value = r_value p, p_currency = r_currency p\<rparr>))
         \<and> length out =
               length (filter (\<lambda>p. isValidDate (toLocalIso (r_start p))
                                 \<and> isValidDate (toLocalIso (r_end p)) \<and> r_value p \<noteq> NaN) ps)
         \<and> sorted (map p_start out))
   \<and> (\<exists>res. normalizeSeries (Array (map Some ps)) tgt = Inr res)"
proof (intro conjI impI)
  assume "None \<in> set elems"
  then show "sortedPoints elems = Inl TypeError" by (rule sortedPoints_null)
next
  assume "None \<in> set elems"
  then show "normalizeSeries (Array elems) tgt = Inl TypeError" by (rule normalizeSeries_null)
next
  have "length (sortedOf ps) =
               length (filter (\<lambda>p. isValidDate (toLocalIso (r_start p))
                                 \<and> isValidDate (toLocalIso (r_end p)) \<and> r_value p \<noteq> NaN) ps)"
    by (simp add: length_sortedOf keepPoint_isoFields)
  then show "\<exists>out. sortedPoints (map Some ps) = Inr out
         \<and> (q \<in> set out \<longleftrightarrow>
              (\<exists>p\<in>set ps. \<exists>s e. r_start p = Instant s \<and> readableYear (formatISO s)
                 \<and> r_end p = Instant e \<and> readableYear (formatISO e) \<and> r_value p \<noteq> NaN
                 \<and> q = \<lparr>p_start = formatISO s, p_end = formatISO e,
                         p_value = r_value p, p_currency = r_currency p\<rparr>))
         \<and> length out =
               length (filter (\<lambda>p. isValidDate (toLocalIso (r_start p))
                                 \<and> isValidDate (toLocalIso (r_end p)) \<and> r_value p \<noteq> NaN) ps)
         \<and> sorted (map p_start out)"
    using sortedPoints_objects [of ps] sortedOf_member [of q ps] sorted_sortedOf [of ps]
    by (intro exI [of _ "sortedOf ps"]) simp
next
  show "\<exists>res. normalizeSeries (Array (map Some ps)) tgt = Inr res"
    by (simp add: normalizeSeries_objects)
qed

text \<open>
  An array with a null element throws. Of four objects, one with an unparsable start,
  one valid, one with a NaN value and one in the year 33658, only the valid one survives,
  its start cut to the second.
\<close>

theorem sortedPoints_filter_witness:
  "normalizeSeries (Array [Some r_millis, None]) ''1h'' = Inl TypeError
   \<and> sortedPoints (map Some [r_unparsable, r_millis, r_nan, r_year_33658])
       = Inr [\<lparr>p_start = 1000, p_end = 900000, p_value = Num 4, p_currency = None\<rparr>]"
proof -
  let ?q = "\<lparr>p_start = 1000, p_end = 900000, p_value = Num 4, p_currency = None\<rparr>"
  note t = sortedPoints_filter [of "[Some r_millis, None]" "''1h''"
      "[r_unparsable, r_millis, r_nan, r_year_33658]" ?q]
  from t have e: "normalizeSeries (Array [Some r_millis, None]) ''1h'' = Inl TypeError"
    by simp
  from t obtain out where out:
    "sortedPoints (map Some [r_unparsable, r_millis, r_nan, r_year_33658]) = Inr out"
    "?q \<in> set out" "length out = 1"
    by (auto simp: r_unparsable_def r_millis_def r_nan_def r_year_33658_def formatISO_def
        readableYear_def parsePrinted_def)
  from out(3) obtain x where "out = [x]"
    by (cases out) simp_all
  with out(2) have "out = [?q]" by simp
  with out(1) e show ?thesis by simp
qed

text \<open>
  C4 as stated fails for a point whose start is an hour after its end, which is not
  dropped, and for an array holding null, where an error is raised.
\<close>

theorem sortedPoints_keeps_backwards_point:
  "sortedPoints [Some r_backwards]
     = Inr [\<lparr>p_start = 3600000, p_end = 0, p_value = Num 1, p_currency = None\<rparr>]
   \<and> normalizeSeries (Array [None]) ''1h'' = Inl TypeError"
  by (simp add: sortedPoints_def mapPoint_def isoFields_def filterAndSort_def r_backwards_def
      keepPoint_def asPoint_def List.map_filter_def formatISO_def parsePrinted_def
      readableYear_def normalizeSeries_def)

subsection \<open>Normalizing twice\<close>














lemma map_of_None_fresh: "map_of al k = None \<Longrightarrow> k \<notin> fst ` set al"
  by (simp add: map_of_eq_None_iff)













text \<open>The slices of expandToQuarterHour.\<close>

lemma sliceCount_pos: "0 < sliceCount pt"
  by (simp add: sliceCount_def Let_def)




text \<open>
  Every slice after the first starts before the end of its point, so the start of a
  slice lies in the years of its point.
\<close>

lemma slice_start_before_end:
  assumes i: "i < sliceCount pt" "0 < i"
  shows "p_start pt + int i * 15 * 60000 < p_end pt"
proof -
  define d where "d = p_end pt - p_start pt"
  define dm where "dm = max 15 ((2 * d + 60000) div 120000)"
  define n where "n = (2 * dm + 15) div 30"
  have sc: "sliceCount pt = nat (max 1 n)"
    by (simp add: sliceCount_def math_round_div_def Let_def d_def dm_def n_def)
  have n2: "int i + 1 \<le> n" using i sc by (cases "1 \<le> n") auto
  have "n * 30 \<le> 2 * dm + 15" unfolding n_def using div_mult_mod_eq [of "2 * dm + 15" 30] pos_mod_sign [of 30 "2 * dm + 15"] by linarith
  then have a: "30 * int i \<le> 2 * dm - 15" using n2 by linarith
  then have "dm > 15" using i by linarith
  then have dmeq: "dm = (2 * d + 60000) div 120000" unfolding dm_def by linarith
  have "dm * 120000 \<le> 2 * d + 60000" unfolding dmeq using div_mult_mod_eq [of "2 * d + 60000" 120000] pos_mod_sign [of 120000 "2 * d + 60000"] by linarith
  then have "900000 * int i < d" using a by linarith
  then show ?thesis by (simp add: d_def)
qed






















section \<open>Properties of the read API\<close>

subsection \<open>Unresolved segments\<close>


lemma walkPath_null: "walkPath (Some JNull) (part # parts) = None"
  by simp




lemma getSegment_absent_key: "map_of fs seg = None \<Longrightarrow> getSegment (JObject fs) seg = None"
  by simp

lemma getSegment_out_of_range:
  "all_digits seg \<Longrightarrow> length xs \<le> digits_value seg \<Longrightarrow> getSegment (JArray xs) seg = None"
  by simp










text \<open>
  With the day object found, each shorthand route answers as the generic route does for
  the path it builds.
\<close>

lemma normalizedPath_relative: "c \<noteq> CHR ''/'' \<Longrightarrow> normalizedPath (c # cs) = CHR ''/'' # c # cs"
  by (simp add: normalizedPath_def)






lemma valid_sample_date: "isValidDateFormat ''2024-01-01''"
  by (simp add: is_digit_def)

lemma fetch_cachedServer: "fetchPriceObject cachedServer ''2024-01-01'' = Some sampleDay"
  by (simp add: fetchPriceObject_def valid_sample_date fromDayGetter_def fromLiveSlots_def
      fromCache_def cachedServer_def noMethods_def bind_outcome_def call_optional_def
      trySlot_def truthy_object_def sampleDay_def del: isValidDateFormat.simps)






















subsection \<open>Failures while the day object is fetched\<close>

lemma fromCache_swallows:
  assumes "ca_getPriceDataByDate c = Some getData" and "ca_priceDataExists c = Some dataExists"
    and "dataExists date = Inl e"
  shows "fromCache (Some c) date = None"
  using assms by (simp add: fromCache_def)

text \<open>
  C5 at a failing input. The price service holds no object for the date and every call to
  the cache rejects because the backend cannot be reached. The claim asks for a 5xx
  answer; the code catches the rejection inside the fetch, returns null, and the route
  answers 404.
\<close>

theorem unreachable_cache_gives_not_found:
  "genericPathRoute unreachableCacheServer ''2024-01-01'' ''hourly/3/spotPrice''
     = ErrorBody 404 ''Price data not available for date: 2024-01-01''"
  by (simp add: genericPathRoute_def fetchPriceObject_def valid_sample_date fromDayGetter_def
      fromLiveSlots_def fromCache_def unreachableCacheServer_def noMethods_def bind_outcome_def
      call_optional_def trySlot_def del: isValidDateFormat.simps)

text \<open>
  The handler's own catch is reached when a segment is not a well-formed percent-encoding:
  the decoding throws and the route answers 500 with the message of the exception.
\<close>

lemma malformed_escape:
  "genericPathRoute cachedServer ''2024-01-01'' ''%'' = ErrorBody 500 ''URI malformed''"
  using fetch_cachedServer
  by (simp add: genericPathRoute_def valid_sample_date getByPath_def cachedServer_def
      del: isValidDateFormat.simps)

section \<open>Properties of the price manager\<close>

subsection \<open>A cached date is not fetched again\<close>

lemma fetchAndStore_frame:
  "priceCache (snd (fetchAndStoreCurrencyRates w m)) = priceCache m
   \<and> cacheReady (snd (fetchAndStoreCurrencyRates w m)) = cacheReady m
   \<and> backendHas (snd (fetchAndStoreCurrencyRates w m)) = backendHas m
   \<and> filter isPriceCall (calls (snd (fetchAndStoreCurrencyRates w m))) = filter isPriceCall (calls m)"
  by (simp add: fetchAndStoreCurrencyRates_def Let_def split: option.splits sum.splits)

lemma ensureCurrencyRates_frame:
  "priceCache (ensureCurrencyRates w m) = priceCache m
   \<and> cacheReady (ensureCurrencyRates w m) = cacheReady m
   \<and> backendHas (ensureCurrencyRates w m) = backendHas m
   \<and> filter isPriceCall (calls (ensureCurrencyRates w m)) = filter isPriceCall (calls m)"
  using fetchAndStore_frame [of w m]
  by (simp add: ensureCurrencyRates_def Let_def split: option.splits)

lemma priceDataExists_cached:
  assumes "cacheReady m = None" and "map_of (priceCache m) (getPriceKey dateStr) = Some obj"
  shows "priceDataExists m dateStr = Inr True"
  using assms
  by (simp add: priceDataExists_def ensureCacheReady_def bind_outcome_def has_key_def Let_def)

lemma fetchPricesOnly_hit:
  assumes ready: "cacheReady m = None"
    and cached: "map_of (priceCache m) (getPriceKey (dateForOffset w dayOffset)) = Some obj"
  shows "fetchPricesOnly w m dayOffset preferSource = (Inr (Some obj), ensureCurrencyRates w m)"
proof -
  have r: "cacheReady (ensureCurrencyRates w m) = None"
    using ready ensureCurrencyRates_frame [of w m] by simp
  have c: "map_of (priceCache (ensureCurrencyRates w m)) (getPriceKey (dateForOffset w dayOffset))
           = Some obj"
    using cached ensureCurrencyRates_frame [of w m] by simp
  have "priceDataExists (ensureCurrencyRates w m) (dateForOffset w dayOffset) = Inr True"
    using r c by (rule priceDataExists_cached)
  then show ?thesis
    using ready c by (simp add: fetchPricesOnly_def ensureCacheReady_def Let_def)
qed


text \<open>
  C1. When the price cache is initialised and holds an object under the key of the date
  that the offset resolves to, the existence check returns true, fetchPricesOnly returns
  exactly that object, makes no call to the upstream price fetcher, writes nothing to the
  price cache and leaves its entries as they were; a further call that resolves to the
  same date returns the same object, again with no fetch and no write.
\<close>

theorem fetchPricesOnly_cached:
  assumes "cacheReady m = None"
    and "map_of (priceCache m) (getPriceKey (dateForOffset w dayOffset)) = Some obj"
    and "dateForOffset w' dayOffset' = dateForOffset w dayOffset"
  shows "priceDataExists m (dateForOffset w dayOffset) = Inr True
     \<and> fst (fetchPricesOnly w m dayOffset preferSource) = Inr (Some obj)
     \<and> priceCache (snd (fetchPricesOnly w m dayOffset preferSource)) = priceCache m
     \<and> filter isPriceCall (calls (snd (fetchPricesOnly w m dayOffset preferSource)))
          = filter isPriceCall (calls m)
     \<and> fst (fetchPricesOnly w' (snd (fetchPricesOnly w m dayOffset preferSource))
               dayOffset' preferSource') = Inr (Some obj)
     \<and> priceCache (snd (fetchPricesOnly w' (snd (fetchPricesOnly w m dayOffset preferSource))
               dayOffset' preferSource')) = priceCache m
     \<and> filter isPriceCall (calls (snd (fetchPricesOnly w'
               (snd (fetchPricesOnly w m dayOffset preferSource)) dayOffset' preferSource')))
          = filter isPriceCall (calls m)"
proof -
  define m1 where "m1 = ensureCurrencyRates w m"
  have first: "fetchPricesOnly w m dayOffset preferSource = (Inr (Some obj), m1)"
    unfolding m1_def using assms(1,2) by (rule fetchPricesOnly_hit)
  have f1: "priceCache m1 = priceCache m" "cacheReady m1 = None"
    "filter isPriceCall (calls m1) = filter isPriceCall (calls m)"
    using ensureCurrencyRates_frame [of w m] assms(1) by (simp_all add: m1_def)
  have c1: "map_of (priceCache m1) (getPriceKey (dateForOffset w' dayOffset')) = Some obj"
    using assms(2,3) f1(1) by simp
  define m2 where "m2 = ensureCurrencyRates w' m1"
  have second: "fetchPricesOnly w' m1 dayOffset' preferSource' = (Inr (Some obj), m2)"
    unfolding m2_def using f1(2) c1 by (rule fetchPricesOnly_hit)
  have f2: "priceCache m2 = priceCache m1"
    "filter isPriceCall (calls m2) = filter isPriceCall (calls m1)"
    using ensureCurrencyRates_frame [of w' m1] by (simp_all add: m2_def)
  have "priceDataExists m (dateForOffset w dayOffset) = Inr True"
    using assms(1,2) by (rule priceDataExists_cached)
  then show ?thesis
    by (simp add: first second f1 f2)
qed

text \<open>The sample manager holds the prices of 2024-01-02, which is today in the sample world.\<close>

theorem fetchPricesOnly_cached_witness:
  "fst (fetchPricesOnly sampleWorld sampleManager 0 ''nordpool'') = Inr (Some day2)
   \<and> priceCache (snd (fetchPricesOnly sampleWorld sampleManager 0 ''nordpool''))
        = priceCache sampleManager
   \<and> filter isPriceCall (calls (snd (fetchPricesOnly sampleWorld sampleManager 0 ''nordpool'')))
        = []
   \<and> fst (fetchPricesOnly sampleWorld
            (snd (fetchPricesOnly sampleWorld sampleManager 0 ''nordpool'')) 0 ''entsoe'')
        = Inr (Some day2)"
  using fetchPricesOnly_cached [of sampleManager sampleWorld 0 day2 sampleWorld 0
      "''nordpool''" "''entsoe''"]
  by (simp add: sampleManager_def sampleWorld_def sampleDates_def getPriceKey_def
      PRICE_KEY_PREFIX_def)

subsection \<open>The retention sweep of the currency cache\<close>

lemma expired_keepDays:
  "currencyKeepDays m' = currencyKeepDays m \<Longrightarrow>
   expiredCurrencyKey w m' key = expiredCurrencyKey w m key"
  by (simp add: expiredCurrencyKey_def Let_def cong: option.case_cong)

lemma expired_fold_invariant: "expiredCurrencyKey w (cleanupStep w m k) key = expiredCurrencyKey w m key"
  by (rule expired_keepDays) (simp add: cleanupStep_def)

lemma cleanupStep_lookup:
  "map_of (currencyCache (cleanupStep w m k)) key =
     (if key = k \<and> expiredCurrencyKey w m key then None else map_of (currencyCache m) key)"
  by (auto simp: cleanupStep_def delete_conv)

lemma cleanupStep_frame:
  "priceCache (cleanupStep w m k) = priceCache m
   \<and> currencyRateCache (cleanupStep w m k) = currencyRateCache m
   \<and> currencyKeepDays (cleanupStep w m k) = currencyKeepDays m"
  by (simp add: cleanupStep_def)

lemma cleanup_fold_lookup:
  "map_of (currencyCache (foldl (cleanupStep w) m ks)) key =
     (if key \<in> set ks \<and> expiredCurrencyKey w m key then None else map_of (currencyCache m) key)"
proof (induction ks arbitrary: m)
  case Nil
  then show ?case by simp
next
  case (Cons k ks)
  show ?case
    by (auto simp: Cons.IH expired_fold_invariant cleanupStep_lookup)
qed

lemma cleanup_fold_frame:
  "priceCache (foldl (cleanupStep w) m ks) = priceCache m
   \<and> currencyRateCache (foldl (cleanupStep w) m ks) = currencyRateCache m"
  by (induction ks arbitrary: m) (simp_all add: cleanupStep_frame)

lemma cleanup_lookup:
  "map_of (currencyCache (snd (cleanupCurrencyCache w m))) key =
     (if currencyCacheReady m = None \<and> expiredCurrencyKey w m key then None
      else map_of (currencyCache m) key)"
proof (cases "currencyCacheReady m")
  case None
  have "key \<notin> set (map fst (currencyCache m)) \<Longrightarrow> map_of (currencyCache m) key = None"
    by (simp add: map_of_eq_None_iff)
  then show ?thesis
    using None by (auto simp: cleanupCurrencyCache_def cleanup_fold_lookup)
next
  case (Some e)
  then show ?thesis by (simp add: cleanupCurrencyCache_def)
qed

lemma latest_not_expired: "\<not> expiredCurrencyKey w m ''currencies-latest''"
  by (simp add: expiredCurrencyKey_def CURRENCY_KEY_PREFIX_def startsWith_def)

lemma expired_cases:
  "expiredCurrencyKey w m key \<longleftrightarrow>
     startsWith key ''currencies-'' \<and> key \<noteq> ''currencies-latest''
     \<and> (\<exists>t. parseDate w (drop 11 key) = Some t \<and> t < now w - currencyKeepDays m * 86400000)"
proof -
  have "startsWith key ''currencies-'' \<Longrightarrow> (drop 11 key = ''latest'') = (key = ''currencies-latest'')"
  proof -
    assume sw: "startsWith key ''currencies-''"
    have len: "length ''currencies-'' = 11" by simp
    have "take 11 key = ''currencies-''"
      using sw unfolding startsWith_def len .
    then have k: "key = ''currencies-'' @ drop 11 key"
      by (metis append_take_drop_id)
    show ?thesis
    proof
      assume "drop 11 key = ''latest''"
      with k show "key = ''currencies-latest''" by simp
    next
      assume "key = ''currencies-latest''"
      then show "drop 11 key = ''latest''" by simp
    qed
  qed
  moreover have len: "length CURRENCY_KEY_PREFIX = 11"
    by (simp add: CURRENCY_KEY_PREFIX_def)
  moreover have "expiredCurrencyKey w m key \<longleftrightarrow>
     startsWith key ''currencies-'' \<and> drop 11 key \<noteq> ''latest''
     \<and> (\<exists>t. parseDate w (drop 11 key) = Some t \<and> t < now w - currencyKeepDays m * 86400000)"
    unfolding expiredCurrencyKey_def len Let_def
    by (auto simp: CURRENCY_KEY_PREFIX_def split: option.splits)
  ultimately show ?thesis by blast
qed

text \<open>
  C10. The retention sweep never deletes the entry "currencies-latest" and never touches
  a key that does not start with "currencies-". An entry it does change is removed, and
  it is a dated currency entry: its key starts with "currencies-", is not
  "currencies-latest", and the rest of the key parses to an instant before the current
  instant less the keep-window. The price cache and the in-process rate table are left
  as they were.
\<close>

theorem cleanupCurrencyCache_frame:
  "map_of (currencyCache (snd (cleanupCurrencyCache w m))) ''currencies-latest''
      = map_of (currencyCache m) ''currencies-latest''
   \<and> (\<not> startsWith key ''currencies-'' \<longrightarrow>
        map_of (currencyCache (snd (cleanupCurrencyCache w m))) key = map_of (currencyCache m) key)
   \<and> (map_of (currencyCache (snd (cleanupCurrencyCache w m))) key \<noteq> map_of (currencyCache m) key
        \<longrightarrow> map_of (currencyCache (snd (cleanupCurrencyCache w m))) key = None
            \<and> startsWith key ''currencies-'' \<and> key \<noteq> ''currencies-latest''
            \<and> (\<exists>t. parseDate w (drop 11 key) = Some t
                    \<and> t < now w - currencyKeepDays m * 86400000))
   \<and> priceCache (snd (cleanupCurrencyCache w m)) = priceCache m
   \<and> currencyRateCache (snd (cleanupCurrencyCache w m)) = currencyRateCache m"
proof (intro conjI impI)
  show "map_of (currencyCache (snd (cleanupCurrencyCache w m))) ''currencies-latest''
      = map_of (currencyCache m) ''currencies-latest''"
    by (simp add: cleanup_lookup latest_not_expired)
next
  assume "\<not> startsWith key ''currencies-''"
  then show "map_of (currencyCache (snd (cleanupCurrencyCache w m))) key = map_of (currencyCache m) key"
    by (simp add: cleanup_lookup expired_cases)
next
  assume a: "map_of (currencyCache (snd (cleanupCurrencyCache w m))) key \<noteq> map_of (currencyCache m) key"
  then have e: "expiredCurrencyKey w m key" "currencyCacheReady m = None"
    by (auto simp: cleanup_lookup split: if_splits)
  then show "map_of (currencyCache (snd (cleanupCurrencyCache w m))) key = None"
    by (simp add: cleanup_lookup)
  from e(1) show "startsWith key ''currencies-''" "key \<noteq> ''currencies-latest''"
    "\<exists>t. parseDate w (drop 11 key) = Some t \<and> t < now w - currencyKeepDays m * 86400000"
    by (simp_all add: expired_cases)
next
  show "priceCache (snd (cleanupCurrencyCache w m)) = priceCache m"
    by (simp add: cleanupCurrencyCache_def cleanup_fold_frame split: option.splits)
  show "currencyRateCache (snd (cleanupCurrencyCache w m)) = currencyRateCache m"
    by (simp add: cleanupCurrencyCache_def cleanup_fold_frame split: option.splits)
qed

text \<open>
  The sample cache holds the latest entry, today's entry, an entry a month old and a key
  of another kind: only the month-old entry goes.
\<close>

lemma sample_cleanup:
  "currencyCache (snd (cleanupCurrencyCache sampleWorld sampleManager))
     = [(''currencies-latest'', sampleRates), (''currencies-2024-01-02'', sampleRates),
        (''settings'', oldRates)]"
  by (simp add: cleanupCurrencyCache_def cleanupStep_def expiredCurrencyKey_def startsWith_def
      CURRENCY_KEY_PREFIX_def sampleManager_def sampleWorld_def Let_def)

theorem cleanupCurrencyCache_frame_witness:
  "map_of (currencyCache (snd (cleanupCurrencyCache sampleWorld sampleManager))) ''currencies-latest''
      = Some sampleRates
   \<and> map_of (currencyCache (snd (cleanupCurrencyCache sampleWorld sampleManager))) ''settings''
      = Some oldRates
   \<and> map_of (currencyCache (snd (cleanupCurrencyCache sampleWorld sampleManager)))
        ''currencies-2023-12-01'' = None
   \<and> (\<exists>t. parseDate sampleWorld (drop 11 ''currencies-2023-12-01'') = Some t
          \<and> t < now sampleWorld - currencyKeepDays sampleManager * 86400000)
   \<and> priceCache (snd (cleanupCurrencyCache sampleWorld sampleManager)) = priceCache sampleManager"
proof -
  have before: "map_of (currencyCache sampleManager) ''currencies-latest'' = Some sampleRates"
    "map_of (currencyCache sampleManager) ''settings'' = Some oldRates"
    "map_of (currencyCache sampleManager) ''currencies-2023-12-01'' = Some oldRates"
    by (simp_all add: sampleManager_def)
  have changed: "map_of (currencyCache (snd (cleanupCurrencyCache sampleWorld sampleManager)))
        ''currencies-2023-12-01'' \<noteq> map_of (currencyCache sampleManager) ''currencies-2023-12-01''"
    by (simp add: sample_cleanup before)
  have other: "\<not> startsWith ''settings'' ''currencies-''"
    by (simp add: startsWith_def)
  show ?thesis
    using cleanupCurrencyCache_frame [of sampleWorld sampleManager "''settings''"]
      cleanupCurrencyCache_frame [of sampleWorld sampleManager "''currencies-2023-12-01''"]
      changed other before
    by simp
qed

subsection \<open>Currency rates are written once\<close>

text \<open>One cycle whose payload has the signature of the stored record.\<close>

lemma cycle_unchanged:
  assumes "currencyFetcher m" "currencyCacheReady m = None"
    and "fetchCurrenciesResult w = Inr d"
    and "map_of (currencyCache m) (CURRENCY_KEY_PREFIX @ cr_date d) = Some e"
    and "stableStringify (stripFetchedAt e) = stableStringify (stripFetchedAt d)"
    and "has_key (currencyCache m) (CURRENCY_KEY_PREFIX @ ''latest'')"
  shows "fetchAndStoreCurrencyRates w m = (Inr (Some d), m\<lparr>calls := calls m @ [FetchCurrencies]\<rparr>)"
  using assms by (simp add: fetchAndStoreCurrencyRates_def Let_def)

lemma cycle_same_signature:
  assumes "currencyFetcher m" "currencyCacheReady m = None"
    and "fetchCurrenciesResult w = Inr d"
    and "map_of (currencyCache m) (CURRENCY_KEY_PREFIX @ cr_date d) = Some e"
    and "stableStringify (stripFetchedAt e) = stableStringify (stripFetchedAt d)"
  shows "currencyRateCache (snd (fetchAndStoreCurrencyRates w m)) = currencyRateCache m
     \<and> map_of (currencyCache (snd (fetchAndStoreCurrencyRates w m))) (CURRENCY_KEY_PREFIX @ cr_date d)
         = Some e
     \<and> has_key (currencyCache (snd (fetchAndStoreCurrencyRates w m))) (CURRENCY_KEY_PREFIX @ ''latest'')
     \<and> (has_key (currencyCache m) (CURRENCY_KEY_PREFIX @ ''latest'') \<longrightarrow>
          currencyCache (snd (fetchAndStoreCurrencyRates w m)) = currencyCache m)"
  using assms
  by (auto simp: fetchAndStoreCurrencyRates_def Let_def has_key_def update_conv')

lemma cycle_changed:
  assumes "currencyFetcher m" "currencyCacheReady m = None"
    and "fetchCurrenciesResult w = Inr d"
    and "map_of (currencyCache m) (CURRENCY_KEY_PREFIX @ cr_date d) = None
         \<or> (\<exists>e. map_of (currencyCache m) (CURRENCY_KEY_PREFIX @ cr_date d) = Some e
                \<and> stableStringify (stripFetchedAt e) \<noteq> stableStringify (stripFetchedAt d))"
  shows "map_of (currencyCache (snd (fetchAndStoreCurrencyRates w m))) (CURRENCY_KEY_PREFIX @ cr_date d)
         = Some d
     \<and> has_key (currencyCache (snd (fetchAndStoreCurrencyRates w m))) (CURRENCY_KEY_PREFIX @ ''latest'')
     \<and> currencyRateCache (snd (fetchAndStoreCurrencyRates w m)) = []"
  using assms
  by (auto simp: fetchAndStoreCurrencyRates_def Let_def has_key_def update_conv')

lemma cycle_frame:
  "currencyFetcher (snd (fetchAndStoreCurrencyRates w m)) = currencyFetcher m
   \<and> currencyCacheReady (snd (fetchAndStoreCurrencyRates w m)) = currencyCacheReady m"
  by (simp add: fetchAndStoreCurrencyRates_def Let_def split: option.splits sum.splits)


lemma signature_date:
  "stableStringify (stripFetchedAt a) = stableStringify (stripFetchedAt b) \<Longrightarrow> cr_date a = cr_date b"
  by (simp add: stableStringify_def stripFetchedAt_def)

lemma after_cycle:
  assumes "currencyFetcher m" "currencyCacheReady m = None"
    and "fetchCurrenciesResult w = Inr d"
  shows "\<exists>e. map_of (currencyCache (snd (fetchAndStoreCurrencyRates w m)))
               (CURRENCY_KEY_PREFIX @ cr_date d) = Some e
            \<and> stableStringify (stripFetchedAt e) = stableStringify (stripFetchedAt d)
            \<and> has_key (currencyCache (snd (fetchAndStoreCurrencyRates w m)))
                 (CURRENCY_KEY_PREFIX @ ''latest'')"
proof (cases "\<exists>e. map_of (currencyCache m) (CURRENCY_KEY_PREFIX @ cr_date d) = Some e
                \<and> stableStringify (stripFetchedAt e) = stableStringify (stripFetchedAt d)")
  case True
  then obtain e where e: "map_of (currencyCache m) (CURRENCY_KEY_PREFIX @ cr_date d) = Some e"
    "stableStringify (stripFetchedAt e) = stableStringify (stripFetchedAt d)" by blast
  from cycle_same_signature [OF assms e] e(2) show ?thesis by blast
next
  case False
  then have "map_of (currencyCache m) (CURRENCY_KEY_PREFIX @ cr_date d) = None
         \<or> (\<exists>e. map_of (currencyCache m) (CURRENCY_KEY_PREFIX @ cr_date d) = Some e
                \<and> stableStringify (stripFetchedAt e) \<noteq> stableStringify (stripFetchedAt d))"
    by (cases "map_of (currencyCache m) (CURRENCY_KEY_PREFIX @ cr_date d)") auto
  from cycle_changed [OF assms this] show ?thesis by blast
qed

text \<open>
  C7. Let two currency fetch cycles follow one another, both fetches succeeding with
  payloads whose signatures (the payload without its fetch timestamp, keys sorted at
  every level) are equal. Then the second cycle returns its payload, writes nothing (its
  only call is the fetch), and leaves the currency cache and the in-process rate table as
  the first cycle left them. And in any cycle whose payload has the signature of the
  record already stored for its date, the rate table is not cleared and the stored record
  is not overwritten: the write that clears the table happens only when there is no stored
  record or the signatures differ.
\<close>

theorem identical_rates_skip_write:
  assumes "currencyFetcher m" and "currencyCacheReady m = None"
    and "fetchCurrenciesResult w1 = Inr d1" and "fetchCurrenciesResult w2 = Inr d2"
    and "stableStringify (stripFetchedAt d1) = stableStringify (stripFetchedAt d2)"
  shows "fetchAndStoreCurrencyRates w2 (snd (fetchAndStoreCurrencyRates w1 m))
           = (Inr (Some d2),
              (snd (fetchAndStoreCurrencyRates w1 m))
                \<lparr>calls := calls (snd (fetchAndStoreCurrencyRates w1 m)) @ [FetchCurrencies]\<rparr>)
     \<and> currencyCache (snd (fetchAndStoreCurrencyRates w2 (snd (fetchAndStoreCurrencyRates w1 m))))
           = currencyCache (snd (fetchAndStoreCurrencyRates w1 m))
     \<and> currencyRateCache (snd (fetchAndStoreCurrencyRates w2 (snd (fetchAndStoreCurrencyRates w1 m))))
           = currencyRateCache (snd (fetchAndStoreCurrencyRates w1 m))
     \<and> (map_of (currencyCache m) (CURRENCY_KEY_PREFIX @ cr_date d1) = Some e
          \<and> stableStringify (stripFetchedAt e) = stableStringify (stripFetchedAt d1)
        \<longrightarrow> currencyRateCache (snd (fetchAndStoreCurrencyRates w1 m)) = currencyRateCache m
            \<and> map_of (currencyCache (snd (fetchAndStoreCurrencyRates w1 m)))
                  (CURRENCY_KEY_PREFIX @ cr_date d1) = Some e)"
proof -
  define m1 where "m1 = snd (fetchAndStoreCurrencyRates w1 m)"
  have f1: "currencyFetcher m1" "currencyCacheReady m1 = None"
    using cycle_frame [of w1 m] assms(1,2) by (simp_all add: m1_def)
  have date: "cr_date d1 = cr_date d2" using assms(5) by (rule signature_date)
  obtain e1 where e1: "map_of (currencyCache m1) (CURRENCY_KEY_PREFIX @ cr_date d2) = Some e1"
    "stableStringify (stripFetchedAt e1) = stableStringify (stripFetchedAt d2)"
    "has_key (currencyCache m1) (CURRENCY_KEY_PREFIX @ ''latest'')"
    using after_cycle [OF assms(1,2,3)] assms(5) date unfolding m1_def by auto
  have second: "fetchAndStoreCurrencyRates w2 m1
                  = (Inr (Some d2), m1\<lparr>calls := calls m1 @ [FetchCurrencies]\<rparr>)"
    using f1 assms(4) e1 by (rule cycle_unchanged)
  have only: "map_of (currencyCache m) (CURRENCY_KEY_PREFIX @ cr_date d1) = Some e
          \<and> stableStringify (stripFetchedAt e) = stableStringify (stripFetchedAt d1)
        \<longrightarrow> currencyRateCache m1 = currencyRateCache m
            \<and> map_of (currencyCache m1) (CURRENCY_KEY_PREFIX @ cr_date d1) = Some e"
    using cycle_same_signature [OF assms(1,2,3), of e] by (simp add: m1_def)
  show ?thesis
    unfolding m1_def [symmetric] using second only by simp
qed

text \<open>
  The two sample payloads differ in their fetch timestamp and in the order of their keys.
  From an empty currency cache the first cycle writes both entries and the second writes
  nothing; against the sample cache, which already holds the record, the rate table
  survives the cycle.
\<close>

lemma same_signature_samples:
  "stableStringify (stripFetchedAt sampleRates) = stableStringify (stripFetchedAt sampleRatesLater)"
  by (simp add: stableStringify_def stripFetchedAt_def sampleRates_def sampleRatesLater_def)

lemma first_cycle_sample:
  "snd (fetchAndStoreCurrencyRates sampleWorld freshManager)
     = freshManager\<lparr>currencyCache := [(''currencies-2024-01-02'', sampleRates),
                                         (''currencies-latest'', sampleRates)],
                      currencyRateCache := [],
                      calls := [FetchCurrencies,
                                CreateCurrency ''currencies-2024-01-02'' sampleRates,
                                CreateCurrency ''currencies-latest'' sampleRates]\<rparr>"
  by (simp add: fetchAndStoreCurrencyRates_def freshManager_def sampleManager_def sampleWorld_def
      CURRENCY_KEY_PREFIX_def Let_def sampleRates_def)

theorem identical_rates_skip_write_witness:
  "calls (snd (fetchAndStoreCurrencyRates laterWorld
               (snd (fetchAndStoreCurrencyRates sampleWorld freshManager))))
     = [FetchCurrencies, CreateCurrency ''currencies-2024-01-02'' sampleRates,
        CreateCurrency ''currencies-latest'' sampleRates, FetchCurrencies]
   \<and> currencyCache (snd (fetchAndStoreCurrencyRates laterWorld
               (snd (fetchAndStoreCurrencyRates sampleWorld freshManager))))
     = [(''currencies-2024-01-02'', sampleRates), (''currencies-latest'', sampleRates)]
   \<and> currencyRateCache (snd (fetchAndStoreCurrencyRates laterWorld sampleManager))
     = [(''NOK'', 11.5)]"
proof -
  have a: "currencyFetcher freshManager" "currencyCacheReady freshManager = None"
    "currencyFetcher sampleManager" "currencyCacheReady sampleManager = None"
    "fetchCurrenciesResult sampleWorld = Inr sampleRates"
    "fetchCurrenciesResult laterWorld = Inr sampleRatesLater"
    by (simp_all add: freshManager_def sampleManager_def sampleWorld_def laterWorld_def)
  have stored: "map_of (currencyCache sampleManager) (CURRENCY_KEY_PREFIX @ cr_date sampleRatesLater)
                  = Some sampleRates"
    by (simp add: sampleManager_def CURRENCY_KEY_PREFIX_def sampleRatesLater_def)
  have rc: "currencyRateCache sampleManager = [(''NOK'', 11.5)]"
    by (simp add: sampleManager_def)
  show ?thesis
    using identical_rates_skip_write [OF a(1,2,5,6) same_signature_samples]
      identical_rates_skip_write [OF a(3,4,6,6) refl, of sampleRates]
      stored same_signature_samples rc
    by (simp add: first_cycle_sample)
qed

subsection \<open>The order of publishes at rollover\<close>

lemma publishDay_present:
  assumes "cacheReady m = None" and "map_of (priceCache m) (getPriceKey day) = Some dayData"
    and "publishResult w (priceTopic m @ ''/'' @ day)
           (if retract then EmptyText else JsonText dayData) = None"
  shows "publishDay w retract day m =
     (Inr (), m\<lparr>calls := calls m @ [Publish (priceTopic m @ ''/'' @ day)
                                     (if retract then EmptyText else JsonText dayData) True 1]\<rparr>)"
  using assms
  by (simp add: publishDay_def getPriceDataByDate_def ensureCacheReady_def bind_outcome_def Let_def)

lemma andThen_ok: "andThen (Inr (), m) f = f m"
  by (simp add: andThen_def)

text \<open>
  C2. With MQTT enabled, a client at hand, the price cache initialised and a transport
  that accepts every publish: when the cache holds the data of tomorrow, of today and of
  yesterday, handleMqttPublishing issues exactly three publishes, in this order: today's
  data, tomorrow's data, then the empty payload for yesterday; each to the topic made of
  the prefix, a slash and the date, with retain set and qos 1. Nothing else of the manager
  changes.
\<close>

theorem rollover_publish_order:
  assumes "mqttClient m" and "enableMqtt m" and "cacheReady m = None"
    and "map_of (priceCache m) (getPriceKey (isoDay w 1)) = Some tomorrowData"
    and "map_of (priceCache m) (getPriceKey (isoDay w 0)) = Some todayData"
    and "map_of (priceCache m) (getPriceKey (isoDay w (- 1))) = Some yesterdayData"
    and "\<forall>topic text. publishResult w topic text = None"
  shows "handleMqttPublishing w m =
     m\<lparr>calls := calls m @
        [Publish (priceTopic m @ ''/'' @ isoDay w 0) (JsonText todayData) True 1,
         Publish (priceTopic m @ ''/'' @ isoDay w 1) (JsonText tomorrowData) True 1,
         Publish (priceTopic m @ ''/'' @ isoDay w (- 1)) EmptyText True 1]\<rparr>"
proof -
  have ex: "priceDataExists m (isoDay w 1) = Inr True"
    using assms(3,4)
    by (simp add: priceDataExists_def ensureCacheReady_def bind_outcome_def has_key_def Let_def)
  define m1 where "m1 = m\<lparr>calls := calls m @
        [Publish (priceTopic m @ ''/'' @ isoDay w 0) (JsonText todayData) True 1]\<rparr>"
  define m2 where "m2 = m1\<lparr>calls := calls m1 @
        [Publish (priceTopic m @ ''/'' @ isoDay w 1) (JsonText tomorrowData) True 1]\<rparr>"
  define m3 where "m3 = m2\<lparr>calls := calls m2 @
        [Publish (priceTopic m @ ''/'' @ isoDay w (- 1)) EmptyText True 1]\<rparr>"
  have p1: "publishDay w False (isoDay w 0) m = (Inr (), m1)"
    using publishDay_present [of m "isoDay w 0" todayData w False] assms(3,5,7)
    by (simp add: m1_def)
  have p2: "publishDay w False (isoDay w 1) m1 = (Inr (), m2)"
    using publishDay_present [of m1 "isoDay w 1" tomorrowData w False] assms(3,4,7)
    by (simp add: m1_def m2_def)
  have p3: "publishDay w True (isoDay w (- 1)) m2 = (Inr (), m3)"
    using publishDay_present [of m2 "isoDay w (- 1)" yesterdayData w True] assms(3,6,7)
    by (simp add: m1_def m2_def m3_def)
  have "handleMqttPublishing w m = m3"
    using assms(1,2,3) ex
    by (simp add: handleMqttPublishing_def ensureCacheReady_def Let_def p1 p2 p3 andThen_ok)
  then show ?thesis by (simp add: m1_def m2_def m3_def)
qed

text \<open>The sample manager holds the three days around 2024-01-02.\<close>

theorem rollover_publish_order_witness:
  "calls (handleMqttPublishing sampleWorld sampleManager) =
     [Publish ''elwiz/prices/2024-01-02'' (JsonText day2) True 1,
      Publish ''elwiz/prices/2024-01-03'' (JsonText day3) True 1,
      Publish ''elwiz/prices/2024-01-01'' EmptyText True 1]"
  using rollover_publish_order [of sampleManager sampleWorld day3 day2 day1]
  by (simp add: sampleManager_def sampleWorld_def sampleDates_def getPriceKey_def
      PRICE_KEY_PREFIX_def)

end
